theory Spec2Isabelle
  imports Main "HOL-Library.Sublist"
begin

section \<open>The syntax trees of go/ast, as far as parsing.go reads them\<close>

text \<open>
  parsing.go works on the trees of the standard package go/ast. The node kinds it tests
  by type assertion are constructors of their own; every other expression or statement is
  \<open>OtherExpr\<close> or \<open>OtherStmt\<close>, which keeps only the children, in the order
  \<^verbatim>\<open>ast.Walk\<close> visits them (an expression child of a statement is wrapped in
  \<open>ExprStmt\<close>). Pointers are values; a pointer that may be nil is an \<open>option\<close>.
\<close>

text \<open>The tokens of a GenDecl (\<^verbatim>\<open>token.TYPE\<close> and its siblings).\<close>

datatype Token = token_IMPORT | token_CONST | token_TYPE | token_VAR

text \<open>\<^verbatim>\<open>ast.Comment\<close> (its Text) and \<^verbatim>\<open>ast.CommentGroup\<close> (its List).\<close>

type_synonym Comment = string
type_synonym CommentGroup = "Comment list"

text \<open>\<^verbatim>\<open>ast.ImportSpec\<close>: Name is nil without an alias; Path.Value is the literal
  as written, quotation marks included.\<close>

record ImportSpec =
  ImportSpec_Name :: "string option"
  ImportSpec_Path_Value :: string

datatype Expr =
    Ident string
  | StarExpr Expr
  | ArrayType "Expr option" Expr
  | SelectorExpr Expr string
  | StructType "Field list"
  | FuncLit Expr "Stmt list"
  | OtherExpr "Expr list"
and Field =
    Field (Field_Names: "string list") (Field_Type: Expr)
and Stmt =
    DeclStmt GenDecl
  | BlockStmt "Stmt list"
  | ExprStmt Expr
  | OtherStmt "Stmt list"
and GenDecl =
    GenDecl (GenDecl_Doc: "CommentGroup option") (Tok: Token) (Specs: "Spec list")
and Spec =
    ImportS ImportSpec
  | ValueS "string list" "Expr option" "Expr list"
  | TypeS TypeSpec
and TypeSpec =
    TypeSpec (TypeSpec_Doc: "CommentGroup option") (TypeSpec_Name: string) (TypeSpec_Type: Expr)

text \<open>\<^verbatim>\<open>ast.Decl\<close>: a GenDecl, or a FuncDecl with its receiver, name, type and
  body (nil for a declaration without body).\<close>

datatype Decl =
    GenD GenDecl
  | FuncD "Field list" string Expr "Stmt list option"

text \<open>\<^verbatim>\<open>ast.File\<close>, and \<^verbatim>\<open>FileInfo\<close>, its synonym.\<close>

record File =
  File_Name :: string
  Decls :: "Decl list"
  Imports :: "ImportSpec list"

type_synonym FileInfo = File
type_synonym FileInfos = "FileInfo option list"

record TypeInfo =
  TypeInfo_FileInfo :: FileInfo
  TypeInfo_GenDecl :: GenDecl
  TypeInfo_TypeSpec :: TypeSpec
  AnnotatedComment :: "Comment option"

type_synonym TypeInfos = "TypeInfo list"
type_synonym StructTypeInfo = "Field list"
type_synonym FieldInfo = Field
type_synonym FieldInfos = "FieldInfo list"

record Parser =
  SkipSemanticsCheck :: bool

record 'tp PackageInfo =
  Dir :: string
  Files :: FileInfos
  Types :: "'tp option"

datatype error =
    ParsingPackage string string
  | NoBuildableGoFiles string
  | CheckError string
  | ErrNotStructType

section \<open>TypeInfos: the walk over the files\<close>

text \<open>
  The closure that TypeInfos hands to \<^verbatim>\<open>ast.Inspect\<close>, at a node that is a
  \<^verbatim>\<open>*ast.GenDecl\<close>: it returns whether the walk descends into the node, and the
  slice \<open>types\<close> it appends to. At every other node (nil too) the closure returns true
  and leaves \<open>types\<close> as it is.
\<close>

fun visitSpecs :: "FileInfo \<Rightarrow> GenDecl \<Rightarrow> Spec list \<Rightarrow> bool \<times> TypeInfos \<Rightarrow> bool \<times> TypeInfos" where
  "visitSpecs file decl [] (found, types) = (found, types)"
| "visitSpecs file decl (TypeS ts # specs) (found, types) =
     visitSpecs file decl specs
       (True, types @ [\<lparr>TypeInfo_FileInfo = file, TypeInfo_GenDecl = decl, TypeInfo_TypeSpec = ts,
            AnnotatedComment = None\<rparr>])"
| "visitSpecs file decl (_ # specs) (found, types) = visitSpecs file decl specs (found, types)"

definition visit :: "FileInfo \<Rightarrow> GenDecl \<Rightarrow> TypeInfos \<Rightarrow> bool \<times> TypeInfos" where
  "visit file decl types =
     (if Tok decl \<noteq> token_TYPE then (True, types)
      else case visitSpecs file decl (Specs decl) (False, types) of
             (found, types') \<Rightarrow> (\<not> found, types'))"

text \<open>
  \<^verbatim>\<open>ast.Inspect\<close> with that closure: depth first, the children of a node in the order
  of \<^verbatim>\<open>ast.Walk\<close>, and no descent below a node at which the closure returned false.
  Identifiers, literals and comments have no children and are no GenDecl, so they leave
  \<open>types\<close> unchanged.
\<close>

fun inspectExpr :: "FileInfo \<Rightarrow> Expr \<Rightarrow> TypeInfos \<Rightarrow> TypeInfos"
  and inspectField :: "FileInfo \<Rightarrow> Field \<Rightarrow> TypeInfos \<Rightarrow> TypeInfos"
  and inspectStmt :: "FileInfo \<Rightarrow> Stmt \<Rightarrow> TypeInfos \<Rightarrow> TypeInfos"
  and inspectGenDecl :: "FileInfo \<Rightarrow> GenDecl \<Rightarrow> TypeInfos \<Rightarrow> TypeInfos"
  and inspectSpec :: "FileInfo \<Rightarrow> Spec \<Rightarrow> TypeInfos \<Rightarrow> TypeInfos"
  and inspectTypeSpec :: "FileInfo \<Rightarrow> TypeSpec \<Rightarrow> TypeInfos \<Rightarrow> TypeInfos"
where
  "inspectExpr file (Ident n) types = types"
| "inspectExpr file (StarExpr x) types = inspectExpr file x types"
| "inspectExpr file (ArrayType len elt) types =
     inspectExpr file elt (case len of None \<Rightarrow> types | Some l \<Rightarrow> inspectExpr file l types)"
| "inspectExpr file (SelectorExpr x sel) types = inspectExpr file x types"
| "inspectExpr file (StructType flds) types = fold (inspectField file) flds types"
| "inspectExpr file (FuncLit typ body) types =
     fold (inspectStmt file) body (inspectExpr file typ types)"
| "inspectExpr file (OtherExpr es) types = fold (inspectExpr file) es types"
| "inspectField file (Field names typ) types = inspectExpr file typ types"
| "inspectStmt file (DeclStmt decl) types = inspectGenDecl file decl types"
| "inspectStmt file (BlockStmt list) types = fold (inspectStmt file) list types"
| "inspectStmt file (ExprStmt x) types = inspectExpr file x types"
| "inspectStmt file (OtherStmt list) types = fold (inspectStmt file) list types"
| "inspectGenDecl file (GenDecl doc tok specs) types =
     (case visit file (GenDecl doc tok specs) types of
        (descend, types') \<Rightarrow>
          if descend then fold (inspectSpec file) specs types' else types')"
| "inspectSpec file (ImportS imp) types = types"
| "inspectSpec file (ValueS names typ values) types =
     fold (inspectExpr file) values
       (case typ of None \<Rightarrow> types | Some t \<Rightarrow> inspectExpr file t types)"
| "inspectSpec file (TypeS ts) types = inspectTypeSpec file ts types"
| "inspectTypeSpec file (TypeSpec doc name typ) types = inspectExpr file typ types"

text \<open>The children of a FuncDecl in the order of the walk: receiver, type, body.\<close>

fun inspectDecl :: "FileInfo \<Rightarrow> Decl \<Rightarrow> TypeInfos \<Rightarrow> TypeInfos" where
  "inspectDecl file (GenD decl) types = inspectGenDecl file decl types"
| "inspectDecl file (FuncD recv name typ body) types =
     (case body of
        None \<Rightarrow> inspectExpr file typ (fold (inspectField file) recv types)
      | Some list \<Rightarrow>
          fold (inspectStmt file) list
            (inspectExpr file typ (fold (inspectField file) recv types)))"

definition inspectFile :: "FileInfo \<Rightarrow> TypeInfos \<Rightarrow> TypeInfos" where
  "inspectFile file types = fold (inspectDecl file) (Decls file) types"

text \<open>TypeInfos: the loop over \<open>pkg.Files\<close>, a nil file skipped.\<close>

definition TypeInfos :: "'tp PackageInfo \<Rightarrow> TypeInfos" where
  "TypeInfos pkg =
     fold (\<lambda>file types. case file of None \<Rightarrow> types | Some f \<Rightarrow> inspectFile f types)
       (Files pkg) []"

section \<open>TypeInfo: Name, Doc, StructType\<close>

definition TypeInfo_Name :: "TypeInfo \<Rightarrow> string" where
  "TypeInfo_Name t = TypeSpec_Name (TypeInfo_TypeSpec t)"

definition TypeInfo_Doc :: "TypeInfo \<Rightarrow> CommentGroup option" where
  "TypeInfo_Doc t =
     (if TypeSpec_Doc (TypeInfo_TypeSpec t) \<noteq> None then TypeSpec_Doc (TypeInfo_TypeSpec t)
      else if GenDecl_Doc (TypeInfo_GenDecl t) \<noteq> None then GenDecl_Doc (TypeInfo_GenDecl t)
      else None)"

text \<open>The method StructType: the type assertion on \<open>t.TypeSpec.Type\<close>.\<close>

definition TypeInfo_StructType :: "TypeInfo \<Rightarrow> error + StructTypeInfo" where
  "TypeInfo_StructType t =
     (case TypeSpec_Type (TypeInfo_TypeSpec t) of
        StructType flds \<Rightarrow> Inr flds
      | _ \<Rightarrow> Inl ErrNotStructType)"

definition FieldInfos :: "StructTypeInfo \<Rightarrow> FieldInfos" where
  "FieldInfos st = fold (\<lambda>field flds. flds @ [field]) st []"

section \<open>FieldInfo: the shape predicates\<close>

definition IsPtr :: "FieldInfo \<Rightarrow> bool" where
  "IsPtr f = (case Field_Type f of StarExpr x \<Rightarrow> True | _ \<Rightarrow> False)"

definition IsArray :: "FieldInfo \<Rightarrow> bool" where
  "IsArray f = (case Field_Type f of ArrayType len elt \<Rightarrow> True | _ \<Rightarrow> False)"

definition IsPtrArray :: "FieldInfo \<Rightarrow> bool" where
  "IsPtrArray f =
     (case Field_Type f of
        StarExpr x \<Rightarrow> (case x of ArrayType len elt \<Rightarrow> True | _ \<Rightarrow> False)
      | _ \<Rightarrow> False)"

definition IsArrayPtr :: "FieldInfo \<Rightarrow> bool" where
  "IsArrayPtr f =
     (case Field_Type f of
        ArrayType len elt \<Rightarrow> (case elt of StarExpr x \<Rightarrow> True | _ \<Rightarrow> False)
      | _ \<Rightarrow> False)"

definition IsPtrArrayPtr :: "FieldInfo \<Rightarrow> bool" where
  "IsPtrArrayPtr f =
     (case Field_Type f of
        StarExpr x \<Rightarrow>
          (case x of
             ArrayType len elt \<Rightarrow> (case elt of StarExpr y \<Rightarrow> True | _ \<Rightarrow> False)
           | _ \<Rightarrow> False)
      | _ \<Rightarrow> False)"

section \<open>FieldInfo: the base type predicates\<close>

text \<open>
  ExprToBaseTypeName is called by the predicates below and defined in a file of the
  repository that is not among the sources. It is the parameter \<open>baseTypeName\<close> of each
  predicate: the type expression of the field to its base type name, or \<open>None\<close> where
  the source takes the error branch.
\<close>

type_synonym baseTypeName = "Expr \<Rightarrow> string option"

definition IsInt64 :: "baseTypeName \<Rightarrow> FieldInfo \<Rightarrow> bool" where
  "IsInt64 ExprToBaseTypeName f =
     (case ExprToBaseTypeName (Field_Type f) of None \<Rightarrow> False | Some typeName \<Rightarrow> typeName = ''int64'')"

definition IsInt :: "baseTypeName \<Rightarrow> FieldInfo \<Rightarrow> bool" where
  "IsInt ExprToBaseTypeName f =
     (case ExprToBaseTypeName (Field_Type f) of None \<Rightarrow> False | Some typeName \<Rightarrow> typeName = ''int'')"

definition IsString :: "baseTypeName \<Rightarrow> FieldInfo \<Rightarrow> bool" where
  "IsString ExprToBaseTypeName f =
     (case ExprToBaseTypeName (Field_Type f) of None \<Rightarrow> False | Some typeName \<Rightarrow> typeName = ''string'')"

definition IsFloat32 :: "baseTypeName \<Rightarrow> FieldInfo \<Rightarrow> bool" where
  "IsFloat32 ExprToBaseTypeName f =
     (case ExprToBaseTypeName (Field_Type f) of None \<Rightarrow> False | Some typeName \<Rightarrow> typeName = ''float32'')"

definition IsFloat64 :: "baseTypeName \<Rightarrow> FieldInfo \<Rightarrow> bool" where
  "IsFloat64 ExprToBaseTypeName f =
     (case ExprToBaseTypeName (Field_Type f) of None \<Rightarrow> False | Some typeName \<Rightarrow> typeName = ''float64'')"

definition IsNumber :: "baseTypeName \<Rightarrow> FieldInfo \<Rightarrow> bool" where
  "IsNumber ExprToBaseTypeName f =
     (IsInt ExprToBaseTypeName f \<or> IsInt64 ExprToBaseTypeName f \<or>
      IsFloat32 ExprToBaseTypeName f \<or> IsFloat64 ExprToBaseTypeName f)"

definition IsBool :: "baseTypeName \<Rightarrow> FieldInfo \<Rightarrow> bool" where
  "IsBool ExprToBaseTypeName f =
     (case ExprToBaseTypeName (Field_Type f) of None \<Rightarrow> False | Some typeName \<Rightarrow> typeName = ''bool'')"

definition IsTime :: "baseTypeName \<Rightarrow> FieldInfo \<Rightarrow> bool" where
  "IsTime ExprToBaseTypeName f =
     (case ExprToBaseTypeName (Field_Type f) of None \<Rightarrow> False | Some typeName \<Rightarrow> typeName = ''time.Time'')"

section \<open>The collectors\<close>

text \<open>
  Modelled from the spec: findAnnotation is called by CollectTaggedTypeInfos and defined in
  a file of the repository that is not among the sources. The specification (ByTag) leaves
  the rule that recognises a comment line as carrying a tag to that collaborator, so the
  rule is the parameter \<open>carries\<close>; it fixes that the first matching line of the
  documentation comment wins and that an absent comment matches no tag.
\<close>

definition findAnnotation ::
  "(string \<Rightarrow> Comment \<Rightarrow> bool) \<Rightarrow> CommentGroup option \<Rightarrow> string \<Rightarrow> Comment option" where
  "findAnnotation carries cg tag =
     (case cg of None \<Rightarrow> None | Some list \<Rightarrow> find (carries tag) list)"

definition CollectTaggedTypeInfos ::
  "(string \<Rightarrow> Comment \<Rightarrow> bool) \<Rightarrow> 'tp PackageInfo \<Rightarrow> string \<Rightarrow> TypeInfos" where
  "CollectTaggedTypeInfos carries pkg tag =
     fold (\<lambda>t ret.
             case findAnnotation carries (TypeInfo_Doc t) tag of
               None \<Rightarrow> ret
             | Some c \<Rightarrow> ret @ [t\<lparr>AnnotatedComment := Some c\<rparr>])
       (TypeInfos pkg) []"

text \<open>The inner loop of CollectTypeInfos: whether it reaches \<open>continue outer\<close>.\<close>

fun nameListed :: "TypeInfo \<Rightarrow> string list \<Rightarrow> bool" where
  "nameListed t [] = False"
| "nameListed t (name # typeNames) =
     (if TypeInfo_Name t = name then True else nameListed t typeNames)"

definition CollectTypeInfos :: "'tp PackageInfo \<Rightarrow> string list \<Rightarrow> TypeInfos" where
  "CollectTypeInfos pkg typeNames =
     fold (\<lambda>t ret. if nameListed t typeNames then ret @ [t] else ret) (TypeInfos pkg) []"

section \<open>FindImportSpecByIdent\<close>

text \<open>\<^verbatim>\<open>strings.HasSuffix\<close>, as the standard library defines it.\<close>

definition HasSuffix :: "string \<Rightarrow> string \<Rightarrow> bool" where
  "HasSuffix s suff =
     (length suff \<le> length s \<and> drop (length s - length suff) s = suff)"

text \<open>The quotation mark that ends and begins the two format strings.\<close>

definition quote :: string where
  "quote = [CHR 0x22]"

fun findImportSpec :: "ImportSpec list \<Rightarrow> string \<Rightarrow> ImportSpec option" where
  "findImportSpec [] packageIdent = None"
| "findImportSpec (imp # imports) packageIdent =
     (if ImportSpec_Name imp = Some packageIdent then Some imp
      else if HasSuffix (ImportSpec_Path_Value imp) (''/'' @ packageIdent @ quote) then Some imp
      else if ImportSpec_Path_Value imp = quote @ packageIdent @ quote then Some imp
      else findImportSpec imports packageIdent)"

definition FindImportSpecByIdent :: "FileInfo \<Rightarrow> string \<Rightarrow> ImportSpec option" where
  "FindImportSpecByIdent file packageIdent = findImportSpec (Imports file) packageIdent"

section \<open>parsePackage\<close>

text \<open>
  The parser and the type checker are the standard library's, not the repository's:
  \<open>parseFile\<close> stands for \<^verbatim>\<open>parser.ParseFile\<close> (file name and optional source text
  to a file or an error text), \<open>check\<close> for \<^verbatim>\<open>config.Check\<close> (directory and files to
  a package, nil or not, and an error or none). The file set only records positions and
  is left out.
\<close>

type_synonym parseFile = "string \<Rightarrow> string option \<Rightarrow> string + File"
type_synonym 'tp check = "string \<Rightarrow> File option list \<Rightarrow> 'tp option \<times> string option"

definition AstFiles :: "FileInfos \<Rightarrow> File option list" where
  "AstFiles files = map (\<lambda>file. file) files"

text \<open>The loop of parsePackage over \<open>fileNames\<close>, from index \<open>idx\<close>.\<close>

fun parseFiles :: "parseFile \<Rightarrow> string list \<Rightarrow> string list \<Rightarrow> nat \<Rightarrow> FileInfos \<Rightarrow> error + FileInfos" where
  "parseFiles parseFile [] codes idx files = Inr files"
| "parseFiles parseFile (fileName # fileNames) codes idx files =
     (if \<not> HasSuffix fileName ''.go'' then parseFiles parseFile fileNames codes (Suc idx) files
      else
        case parseFile fileName (if idx < length codes then Some (codes ! idx) else None) of
          Inl err \<Rightarrow> Inl (ParsingPackage fileName err)
        | Inr parsedFile \<Rightarrow>
            parseFiles parseFile fileNames codes (Suc idx) (files @ [Some parsedFile]))"

definition parsePackage ::
  "Parser \<Rightarrow> parseFile \<Rightarrow> 'tp check \<Rightarrow> string \<Rightarrow> string list \<Rightarrow> string list
     \<Rightarrow> error + 'tp PackageInfo" where
  "parsePackage p parseFile check directory fileNames codes =
     (case parseFiles parseFile fileNames codes 0 [] of
        Inl err \<Rightarrow> Inl err
      | Inr files \<Rightarrow>
          if length files = 0 then Inl (NoBuildableGoFiles directory)
          else
            case check directory (AstFiles files) of
              (typesPkg, err) \<Rightarrow>
                (if SkipSemanticsCheck p \<and> err \<noteq> None
                 then Inr \<lparr>Dir = directory, Files = files, Types = None\<rparr>
                 else
                   (case err of
                      Some e \<Rightarrow> Inl (CheckError e)
                    | None \<Rightarrow> Inr \<lparr>Dir = directory, Files = files, Types = typesPkg\<rparr>)))"

definition ParsePackageFiles ::
  "Parser \<Rightarrow> parseFile \<Rightarrow> 'tp check \<Rightarrow> string list \<Rightarrow> error + 'tp PackageInfo" where
  "ParsePackageFiles p parseFile check fileNames =
     parsePackage p parseFile check ''.'' fileNames []"

definition ParseStringSource ::
  "Parser \<Rightarrow> parseFile \<Rightarrow> 'tp check \<Rightarrow> string \<Rightarrow> string \<Rightarrow> error + 'tp PackageInfo" where
  "ParseStringSource p parseFile check fileName code =
     parsePackage p parseFile check ''.'' [fileName] [code]"

section \<open>The statements of the specification, as definitions\<close>

text \<open>
  AllDeclarations as the specification words it: for each file in order, for each top-level
  construct that defines named types, in textual order, one entry per named type.
\<close>

fun typeSpecs :: "Spec list \<Rightarrow> TypeSpec list" where
  "typeSpecs [] = []"
| "typeSpecs (TypeS ts # specs) = ts # typeSpecs specs"
| "typeSpecs (_ # specs) = typeSpecs specs"

definition declarationsOf :: "FileInfo \<Rightarrow> GenDecl \<Rightarrow> TypeInfos" where
  "declarationsOf file decl =
     map (\<lambda>ts. \<lparr>TypeInfo_FileInfo = file, TypeInfo_GenDecl = decl, TypeInfo_TypeSpec = ts,
                AnnotatedComment = None\<rparr>)
       (typeSpecs (Specs decl))"

fun topLevelDeclarations :: "FileInfo \<Rightarrow> Decl \<Rightarrow> TypeInfos" where
  "topLevelDeclarations file (GenD decl) =
     (if Tok decl = token_TYPE then declarationsOf file decl else [])"
| "topLevelDeclarations file (FuncD recv name typ body) = []"

definition AllDeclarations_spec :: "'tp PackageInfo \<Rightarrow> TypeInfos" where
  "AllDeclarations_spec pkg =
     concat (map (\<lambda>file. case file of
                            None \<Rightarrow> []
                          | Some f \<Rightarrow> concat (map (topLevelDeclarations f) (Decls f)))
               (Files pkg))"

text \<open>
  Whether a construct that defines a named type stands at or below a node: a GenDecl with
  the token TYPE and a TypeSpec among its specs.
\<close>

fun isTypeSpec :: "Spec \<Rightarrow> bool" where
  "isTypeSpec (TypeS ts) = True"
| "isTypeSpec _ = False"

fun typeDeclInExpr :: "Expr \<Rightarrow> bool"
  and typeDeclInField :: "Field \<Rightarrow> bool"
  and typeDeclInStmt :: "Stmt \<Rightarrow> bool"
  and typeDeclInGenDecl :: "GenDecl \<Rightarrow> bool"
  and typeDeclInSpec :: "Spec \<Rightarrow> bool"
  and typeDeclInTypeSpec :: "TypeSpec \<Rightarrow> bool"
where
  "typeDeclInExpr (Ident n) = False"
| "typeDeclInExpr (StarExpr x) = typeDeclInExpr x"
| "typeDeclInExpr (ArrayType len elt) =
     ((case len of None \<Rightarrow> False | Some l \<Rightarrow> typeDeclInExpr l) \<or> typeDeclInExpr elt)"
| "typeDeclInExpr (SelectorExpr x sel) = typeDeclInExpr x"
| "typeDeclInExpr (StructType flds) = list_ex typeDeclInField flds"
| "typeDeclInExpr (FuncLit typ body) = (typeDeclInExpr typ \<or> list_ex typeDeclInStmt body)"
| "typeDeclInExpr (OtherExpr es) = list_ex typeDeclInExpr es"
| "typeDeclInField (Field names typ) = typeDeclInExpr typ"
| "typeDeclInStmt (DeclStmt decl) = typeDeclInGenDecl decl"
| "typeDeclInStmt (BlockStmt list) = list_ex typeDeclInStmt list"
| "typeDeclInStmt (ExprStmt x) = typeDeclInExpr x"
| "typeDeclInStmt (OtherStmt list) = list_ex typeDeclInStmt list"
| "typeDeclInGenDecl (GenDecl doc tok specs) =
     ((tok = token_TYPE \<and> list_ex isTypeSpec specs) \<or> list_ex typeDeclInSpec specs)"
| "typeDeclInSpec (ImportS imp) = False"
| "typeDeclInSpec (ValueS names typ values) =
     ((case typ of None \<Rightarrow> False | Some t \<Rightarrow> typeDeclInExpr t) \<or> list_ex typeDeclInExpr values)"
| "typeDeclInSpec (TypeS ts) = typeDeclInTypeSpec ts"
| "typeDeclInTypeSpec (TypeSpec doc name typ) = typeDeclInExpr typ"

text \<open>
  Whether a top-level declaration holds a type declaration that is not top-level: inside a
  function (receiver, signature or body), or inside a declaration that defines no named
  type itself (an initialiser of a variable, say).
\<close>

fun localTypeDecl :: "Decl \<Rightarrow> bool" where
  "localTypeDecl (GenD (GenDecl doc tok specs)) =
     (\<not> (tok = token_TYPE \<and> list_ex isTypeSpec specs) \<and> list_ex typeDeclInSpec specs)"
| "localTypeDecl (FuncD recv name typ body) =
     (list_ex typeDeclInField recv \<or> typeDeclInExpr typ \<or>
      (case body of None \<Rightarrow> False | Some list \<Rightarrow> list_ex typeDeclInStmt list))"

definition noLocalTypeDecls :: "'tp PackageInfo \<Rightarrow> bool" where
  "noLocalTypeDecls pkg =
     list_all (\<lambda>file. case file of None \<Rightarrow> True | Some f \<Rightarrow> \<not> list_ex localTypeDecl (Decls f))
       (Files pkg)"

text \<open>
  The import lookup as the specification words it: the three rules tried in order, each
  over the imports of the file.
\<close>

definition aliasRule :: "string \<Rightarrow> ImportSpec \<Rightarrow> bool" where
  "aliasRule packageIdent imp = (ImportSpec_Name imp = Some packageIdent)"

definition lastSegmentRule :: "string \<Rightarrow> ImportSpec \<Rightarrow> bool" where
  "lastSegmentRule packageIdent imp =
     HasSuffix (ImportSpec_Path_Value imp) (''/'' @ packageIdent @ quote)"

definition fullPathRule :: "string \<Rightarrow> ImportSpec \<Rightarrow> bool" where
  "fullPathRule packageIdent imp = (ImportSpec_Path_Value imp = quote @ packageIdent @ quote)"

definition anyRule :: "string \<Rightarrow> ImportSpec \<Rightarrow> bool" where
  "anyRule packageIdent imp =
     (aliasRule packageIdent imp \<or> lastSegmentRule packageIdent imp \<or> fullPathRule packageIdent imp)"

definition FindImport_spec :: "FileInfo \<Rightarrow> string \<Rightarrow> ImportSpec option" where
  "FindImport_spec file packageIdent =
     (case find (aliasRule packageIdent) (Imports file) of
        Some imp \<Rightarrow> Some imp
      | None \<Rightarrow>
          (case find (lastSegmentRule packageIdent) (Imports file) of
             Some imp \<Rightarrow> Some imp
           | None \<Rightarrow> find (fullPathRule packageIdent) (Imports file)))"

text \<open>What the walk collects in one file of the package, a nil file giving nothing.\<close>

definition walkOf :: "FileInfo option \<Rightarrow> TypeInfos" where
  "walkOf file =
     (case file of None \<Rightarrow> [] | Some f \<Rightarrow> concat (map (\<lambda>d. inspectDecl f d []) (Decls f)))"

text \<open>A named type as a field's type: a type name, alone or qualified by a package.\<close>

fun isNamedType :: "Expr \<Rightarrow> bool" where
  "isNamedType (Ident n) = True"
| "isNamedType (SelectorExpr (Ident q) sel) = True"
| "isNamedType _ = False"

section \<open>Concrete inputs\<close>

text \<open>
  The file of the scenario, \<^verbatim>\<open>type Point struct { X int; Y *int; Tags []string }\<close>, as the
  parser returns it, with a parser that returns it and two type checkers: one that
  resolves everything and one that fails on an import.
\<close>

definition pointSpec :: TypeSpec where
  "pointSpec =
     TypeSpec None ''Point''
       (StructType
          [Field [''X''] (Ident ''int''),
           Field [''Y''] (StarExpr (Ident ''int'')),
           Field [''Tags''] (ArrayType None (Ident ''string''))])"

definition pointDecl :: GenDecl where
  "pointDecl = GenDecl None token_TYPE [TypeS pointSpec]"

definition pointFile :: File where
  "pointFile = \<lparr>File_Name = ''geometry'', Decls = [GenD pointDecl], Imports = []\<rparr>"

definition pointSource :: string where
  "pointSource = ''package geometry; type Point struct { X int; Y *int; Tags []string }''"

definition pointParser :: parseFile where
  "pointParser fileName code = Inr pointFile"

definition failingParser :: parseFile where
  "failingParser fileName code = Inl ''expected package clause''"

definition resolvingCheck :: "unit check" where
  "resolvingCheck directory files = (Some (), None)"

definition failingCheck :: "unit check" where
  "failingCheck directory files = (None, Some ''could not import missing/dep'')"

definition strictParser :: Parser where
  "strictParser = \<lparr>SkipSemanticsCheck = False\<rparr>"

definition lenientParser :: Parser where
  "lenientParser = \<lparr>SkipSemanticsCheck = True\<rparr>"

definition pointInfo :: TypeInfo where
  "pointInfo =
     \<lparr>TypeInfo_FileInfo = pointFile, TypeInfo_GenDecl = pointDecl, TypeInfo_TypeSpec = pointSpec,
      AnnotatedComment = None\<rparr>"

text \<open>
  A file whose only type declaration stands in the body of a function:
  \<^verbatim>\<open>func f() { type local int }\<close>.
\<close>

definition localDecl :: GenDecl where
  "localDecl = GenDecl None token_TYPE [TypeS (TypeSpec None ''local'' (Ident ''int''))]"

definition localFile :: File where
  "localFile =
     \<lparr>File_Name = ''p'',
      Decls = [FuncD [] ''f'' (OtherExpr []) (Some [DeclStmt localDecl])],
      Imports = []\<rparr>"

definition localPkg :: "unit PackageInfo" where
  "localPkg = \<lparr>Dir = ''.'', Files = [Some localFile], Types = None\<rparr>"

text \<open>
  A package of two files. The first declares \<open>A\<close> and \<open>B\<close> in one documented group,
  \<open>B\<close> with a comment of its own, and a function; the second a variable and the
  undocumented type \<open>C\<close>.
\<close>

definition specA :: TypeSpec where
  "specA = TypeSpec None ''A'' (Ident ''int'')"

definition specB :: TypeSpec where
  "specB = TypeSpec (Some [''// B is tagged'', ''// +gen'']) ''B'' (StarExpr (Ident ''A''))"

definition specC :: TypeSpec where
  "specC = TypeSpec None ''C'' (Ident ''string'')"

definition declAB :: GenDecl where
  "declAB = GenDecl (Some [''// the group'']) token_TYPE [TypeS specA, TypeS specB]"

definition declC :: GenDecl where
  "declC = GenDecl None token_TYPE [TypeS specC]"

definition fileAB :: File where
  "fileAB =
     \<lparr>File_Name = ''p'',
      Decls = [GenD declAB, FuncD [] ''f'' (OtherExpr []) (Some [ExprStmt (Ident ''x'')])],
      Imports = []\<rparr>"

definition fileC :: File where
  "fileC =
     \<lparr>File_Name = ''p'',
      Decls = [GenD (GenDecl None token_VAR [ValueS [''v''] (Some (Ident ''int'')) []]), GenD declC],
      Imports = []\<rparr>"

definition twoFilePkg :: "unit PackageInfo" where
  "twoFilePkg = \<lparr>Dir = ''.'', Files = [Some fileAB, Some fileC], Types = None\<rparr>"

definition infoA :: TypeInfo where
  "infoA =
     \<lparr>TypeInfo_FileInfo = fileAB, TypeInfo_GenDecl = declAB, TypeInfo_TypeSpec = specA,
      AnnotatedComment = None\<rparr>"

definition infoB :: TypeInfo where
  "infoB =
     \<lparr>TypeInfo_FileInfo = fileAB, TypeInfo_GenDecl = declAB, TypeInfo_TypeSpec = specB,
      AnnotatedComment = None\<rparr>"

definition infoC :: TypeInfo where
  "infoC =
     \<lparr>TypeInfo_FileInfo = fileC, TypeInfo_GenDecl = declC, TypeInfo_TypeSpec = specC,
      AnnotatedComment = None\<rparr>"

text \<open>A matching rule for the witnesses: the line is the tag after \<^verbatim>\<open>// +\<close>.\<close>

definition plusTag :: "string \<Rightarrow> Comment \<Rightarrow> bool" where
  "plusTag tag c = (c = ''// +'' @ tag)"

text \<open>
  Imports for the lookup: \<^verbatim>\<open>import "x/foo"\<close> followed by \<^verbatim>\<open>import foo "bar"\<close>, and
  a file with an alias, a path of several segments and a path of one.
\<close>

definition importXFoo :: ImportSpec where
  "importXFoo = \<lparr>ImportSpec_Name = None, ImportSpec_Path_Value = quote @ ''x/foo'' @ quote\<rparr>"

definition importFooBar :: ImportSpec where
  "importFooBar = \<lparr>ImportSpec_Name = Some ''foo'', ImportSpec_Path_Value = quote @ ''bar'' @ quote\<rparr>"

definition importFmt :: ImportSpec where
  "importFmt = \<lparr>ImportSpec_Name = None, ImportSpec_Path_Value = quote @ ''fmt'' @ quote\<rparr>"

definition clashFile :: File where
  "clashFile = \<lparr>File_Name = ''p'', Decls = [], Imports = [importXFoo, importFooBar]\<rparr>"

definition importsFile :: File where
  "importsFile = \<lparr>File_Name = ''p'', Decls = [], Imports = [importFooBar, importXFoo, importFmt]\<rparr>"

section \<open>The walk appends, and finds nothing where no type is declared\<close>

lemma visitSpecs_eq:
  "visitSpecs file decl specs (found, types) =
     (found \<or> list_ex isTypeSpec specs,
      types @ map (\<lambda>ts. \<lparr>TypeInfo_FileInfo = file, TypeInfo_GenDecl = decl, TypeInfo_TypeSpec = ts,
                AnnotatedComment = None\<rparr>) (typeSpecs specs))"
proof (induction specs arbitrary: found types)
  case Nil
  then show ?case by simp
next
  case (Cons sp specs)
  then show ?case by (cases sp) simp_all
qed

lemma typeSpecs_Nil: "\<not> list_ex isTypeSpec specs \<Longrightarrow> typeSpecs specs = []"
  by (induction specs rule: typeSpecs.induct) auto

lemma visit_eq:
  "visit file decl types =
     (if Tok decl = token_TYPE \<and> list_ex isTypeSpec (Specs decl)
      then (False, types @ declarationsOf file decl) else (True, types))"
  by (simp add: visit_def visitSpecs_eq declarationsOf_def typeSpecs_Nil)

lemma fold_append_acc:
  assumes "\<And>x a b. x \<in> set xs \<Longrightarrow> f x (a @ b) = a @ f x b"
  shows "fold f xs (a @ b) = a @ fold f xs b"
  using assms by (induction xs arbitrary: b) simp_all


lemma inspect_append:
  "inspectExpr file e (a @ b) = a @ inspectExpr file e b"
  "inspectField file fld (a @ b) = a @ inspectField file fld b"
  "inspectStmt file st (a @ b) = a @ inspectStmt file st b"
  "inspectGenDecl file g (a @ b) = a @ inspectGenDecl file g b"
  "inspectSpec file sp (a @ b) = a @ inspectSpec file sp b"
  "inspectTypeSpec file tsp (a @ b) = a @ inspectTypeSpec file tsp b"
proof (induction e and fld and st and g and sp and tsp arbitrary: a b and a b and a b and a b and a b and a b)
  case (ArrayType len elt)
  then show ?case by (cases len) simp_all
next
  case (StructType flds)
  then show ?case by (simp add: fold_append_acc)
next
  case (FuncLit ty body)
  then show ?case by (simp add: fold_append_acc)
next
  case (OtherExpr es)
  then show ?case by (simp add: fold_append_acc)
next
  case (BlockStmt list)
  then show ?case by (simp add: fold_append_acc)
next
  case (OtherStmt list)
  then show ?case by (simp add: fold_append_acc)
next
  case (GenDecl doc tok specs)
  then show ?case by (simp add: visit_eq fold_append_acc)
next
  case (ValueS names ty vals)
  then show ?case by (cases ty) (simp_all add: fold_append_acc)
qed simp_all

lemma fold_unchanged:
  assumes "\<And>x a. x \<in> set xs \<Longrightarrow> f x a = a"
  shows "fold f xs a = a"
  using assms by (induction xs arbitrary: a) simp_all

lemma inspect_unchanged:
  "\<not> typeDeclInExpr e \<Longrightarrow> inspectExpr file e a = a"
  "\<not> typeDeclInField fld \<Longrightarrow> inspectField file fld a = a"
  "\<not> typeDeclInStmt st \<Longrightarrow> inspectStmt file st a = a"
  "\<not> typeDeclInGenDecl g \<Longrightarrow> inspectGenDecl file g a = a"
  "\<not> typeDeclInSpec sp \<Longrightarrow> inspectSpec file sp a = a"
  "\<not> typeDeclInTypeSpec tsp \<Longrightarrow> inspectTypeSpec file tsp a = a"
proof (induction e and fld and st and g and sp and tsp arbitrary: a and a and a and a and a and a)
  case (ArrayType len elt)
  then show ?case by (cases len) simp_all
next
  case (StructType flds)
  then show ?case by (simp add: fold_unchanged list_ex_iff)
next
  case (FuncLit ty body)
  then show ?case by (simp add: fold_unchanged list_ex_iff)
next
  case (OtherExpr es)
  then show ?case by (simp add: fold_unchanged list_ex_iff)
next
  case (BlockStmt list)
  then show ?case by (simp add: fold_unchanged list_ex_iff)
next
  case (OtherStmt list)
  then show ?case by (simp add: fold_unchanged list_ex_iff)
next
  case (GenDecl doc tok specs)
  then show ?case by (auto simp add: visit_eq fold_unchanged list_ex_iff)
next
  case (ValueS names ty vals)
  then show ?case by (cases ty) (simp_all add: fold_unchanged list_ex_iff)
qed simp_all

lemma inspectDecl_append: "inspectDecl file d (a @ b) = a @ inspectDecl file d b"
proof (cases d)
  case (GenD g)
  then show ?thesis by (simp add: inspect_append)
next
  case (FuncD recv name ty body)
  then show ?thesis
    by (cases body) (simp_all add: inspect_append fold_append_acc)
qed

lemma fold_concat:
  assumes "\<And>x a b. f x (a @ b) = a @ f x b"
  shows "fold f xs a = a @ concat (map (\<lambda>x. f x []) xs)"
proof (induction xs arbitrary: a)
  case Nil
  then show ?case by simp
next
  case (Cons x xs)
  have "f x a = a @ f x []" using assms [of x a "[]"] by simp
  then show ?case by (simp add: Cons.IH)
qed

lemma inspectFile_eq:
  "inspectFile file a = a @ concat (map (\<lambda>d. inspectDecl file d []) (Decls file))"
  unfolding inspectFile_def by (rule fold_concat) (rule inspectDecl_append)

lemma TypeInfos_eq:
  "TypeInfos pkg = concat (map walkOf (Files pkg))"
proof -
  let ?step = "\<lambda>file types. case file of None \<Rightarrow> types | Some f \<Rightarrow> inspectFile f types"
  have step: "?step x (a @ b) = a @ ?step x b" for x a b
    by (cases x) (simp_all add: inspectFile_eq)
  have "fold ?step (Files pkg) [] = [] @ concat (map (\<lambda>x. ?step x []) (Files pkg))"
    by (rule fold_concat) (rule step)
  moreover have "(\<lambda>x. ?step x []) = walkOf"
    by (rule ext) (simp add: walkOf_def inspectFile_eq split: option.splits)
  ultimately show ?thesis by (simp add: TypeInfos_def)
qed

lemma subseq_concat:
  "list_all2 subseq xs ys \<Longrightarrow> subseq (concat xs) (concat ys)"
  by (induction rule: list_all2_induct) (simp_all add: list_emb_append_mono)

lemma declarationsOf_Nil: "\<not> list_ex isTypeSpec (Specs decl) \<Longrightarrow> declarationsOf file decl = []"
  by (simp add: declarationsOf_def typeSpecs_Nil)

lemma topLevel_subseq: "subseq (topLevelDeclarations file d) (inspectDecl file d [])"
proof (cases d)
  case (GenD g)
  then show ?thesis by (cases g) (simp add: visit_eq declarationsOf_Nil)
next
  case (FuncD recv name ty body)
  then show ?thesis by simp
qed

lemma topLevel_eq:
  "\<not> localTypeDecl d \<Longrightarrow> inspectDecl file d [] = topLevelDeclarations file d"
proof (cases d)
  case (GenD g)
  assume "\<not> localTypeDecl d"
  with GenD show ?thesis
    by (cases g) (auto simp add: visit_eq declarationsOf_Nil fold_unchanged inspect_unchanged list_ex_iff)
next
  case (FuncD recv name ty body)
  assume "\<not> localTypeDecl d"
  with FuncD show ?thesis
    by (cases body) (simp_all add: fold_unchanged inspect_unchanged list_ex_iff)
qed

section \<open>The collectors as filters\<close>

lemma nameListed_iff: "nameListed t typeNames \<longleftrightarrow> TypeInfo_Name t \<in> set typeNames"
  by (induction typeNames) auto

lemma fold_filter_acc:
  "fold (\<lambda>t ret. if P t then ret @ [t] else ret) xs acc = acc @ filter P xs"
  by (induction xs arbitrary: acc) simp_all

lemma CollectTypeInfos_filter:
  "CollectTypeInfos pkg typeNames =
     filter (\<lambda>t. TypeInfo_Name t \<in> set typeNames) (TypeInfos pkg)"
  by (simp add: CollectTypeInfos_def fold_filter_acc nameListed_iff)

lemma fold_tagged_acc:
  "set (fold (\<lambda>t ret. case g t of None \<Rightarrow> ret | Some c \<Rightarrow> ret @ [t\<lparr>AnnotatedComment := Some c\<rparr>])
          xs acc) =
   set acc \<union> {t\<lparr>AnnotatedComment := Some c\<rparr> | t c. t \<in> set xs \<and> g t = Some c}"
proof (induction xs arbitrary: acc)
  case Nil
  then show ?case by simp
next
  case (Cons x xs)
  then show ?case by (cases "g x") auto
qed

lemma TypeInfo_Doc_update [simp]:
  "TypeInfo_Doc (t\<lparr>AnnotatedComment := c\<rparr>) = TypeInfo_Doc t"
  by (simp add: TypeInfo_Doc_def)

lemma tagged_has_doc:
  assumes "u \<in> set (CollectTaggedTypeInfos carries pkg tag)"
  shows "TypeInfo_Doc u \<noteq> None"
proof -
  from assms obtain t c where "u = t\<lparr>AnnotatedComment := Some c\<rparr>"
    and "findAnnotation carries (TypeInfo_Doc t) tag = Some c"
    by (auto simp: CollectTaggedTypeInfos_def fold_tagged_acc)
  then show ?thesis by (auto simp: findAnnotation_def split: option.splits)
qed

section \<open>The loop over the file names\<close>

lemma parseFiles_skips:
  "filter (\<lambda>n. HasSuffix n ''.go'') fileNames = [] \<Longrightarrow>
   parseFiles parseFile fileNames codes idx files = Inr files"
  by (induction fileNames arbitrary: idx) (simp_all split: if_splits)

lemma parseFiles_cong:
  assumes "\<And>n c. HasSuffix n ''.go'' \<Longrightarrow> parseFile n c = parseFile' n c"
  shows "parseFiles parseFile fileNames codes idx files =
         parseFiles parseFile' fileNames codes idx files"
  using assms by (induction fileNames arbitrary: idx files) (simp_all split: sum.splits)

lemma parseFiles_Suc:
  "parseFiles parseFile fileNames codes (Suc idx) files =
   parseFiles parseFile fileNames (tl codes) idx files"
proof (induction fileNames arbitrary: idx files)
  case Nil
  then show ?case by simp
next
  case (Cons n ns)
  have l: "Suc idx < length codes \<longleftrightarrow> idx < length (tl codes)" by auto
  have "codes ! Suc idx = tl codes ! idx" if "idx < length (tl codes)"
    using that by (simp add: nth_tl)
  then show ?case using Cons.IH l by (simp split: sum.splits)
qed

lemma parseFiles_filter:
  "parseFiles parseFile fileNames codes 0 files =
   parseFiles parseFile (filter (\<lambda>n. HasSuffix n ''.go'') fileNames)
     (map snd (filter (\<lambda>nc. HasSuffix (fst nc) ''.go'') (zip fileNames codes))) 0 files"
proof (induction fileNames arbitrary: codes files)
  case Nil
  then show ?case by simp
next
  case (Cons n ns)
  show ?case
  proof (cases codes)
    case Nil
    then show ?thesis using Cons.IH [of "[]"] by (simp add: parseFiles_Suc split: sum.splits)
  next
    case (Cons c cs)
    then show ?thesis using Cons.IH [of cs] by (simp add: parseFiles_Suc split: sum.splits)
  qed
qed

lemma parseFiles_all_parse:
  assumes "\<And>n c. HasSuffix n ''.go'' \<Longrightarrow> \<exists>f. parseFile n c = Inr f"
  shows "\<exists>fs. parseFiles parseFile fileNames codes idx files = Inr (files @ fs) \<and>
              length fs = length (filter (\<lambda>n. HasSuffix n ''.go'') fileNames)"
proof (induction fileNames arbitrary: idx files)
  case Nil
  then show ?case by simp
next
  case (Cons n ns)
  show ?case
  proof (cases "HasSuffix n ''.go''")
    case False
    then show ?thesis using Cons.IH [of "Suc idx" files] by simp
  next
    case True
    obtain f where f: "parseFile n (if idx < length codes then Some (codes ! idx) else None) = Inr f"
      using assms [OF True] by blast
    obtain fs where "parseFiles parseFile ns codes (Suc idx) (files @ [Some f]) =
        Inr ((files @ [Some f]) @ fs)"
      and "length fs = length (filter (\<lambda>n. HasSuffix n ''.go'') ns)"
      using Cons.IH [of "Suc idx" "files @ [Some f]"] by blast
    then have "parseFiles parseFile (n # ns) codes idx files = Inr (files @ (Some f # fs)) \<and>
        length (Some f # fs) = length (filter (\<lambda>n. HasSuffix n ''.go'') (n # ns))"
      using True f by simp
    then show ?thesis by blast
  qed
qed

section \<open>The import lookup as a search\<close>

lemma findImportSpec_find:
  "findImportSpec imps packageIdent = find (anyRule packageIdent) imps"
  by (induction imps)
     (simp_all add: anyRule_def aliasRule_def lastSegmentRule_def fullPathRule_def)

lemma find_none_of_filter_Nil:
  assumes "filter Q xs = []" and "\<And>x. P x \<Longrightarrow> Q x"
  shows "find P xs = None"
  using assms by (auto simp: find_None_iff filter_empty_conv)

lemma find_single_match:
  assumes "length (filter Q xs) \<le> 1" and "\<And>x. P x \<Longrightarrow> Q x"
  shows "find P xs = (case find Q xs of None \<Rightarrow> None | Some i \<Rightarrow> if P i then Some i else None)"
  using assms
proof (induction xs)
  case Nil
  then show ?case by simp
next
  case (Cons x xs)
  show ?case
  proof (cases "Q x")
    case True
    with Cons.prems(1) have "filter Q xs = []" by simp
    then have "find P xs = None" using Cons.prems(2) by (rule find_none_of_filter_Nil)
    with True show ?thesis by simp
  next
    case False
    then have "\<not> P x" using Cons.prems(2) by blast
    moreover have "length (filter Q xs) \<le> 1" using Cons.prems(1) False by simp
    ultimately show ?thesis using False Cons.IH Cons.prems(2) by simp
  qed
qed

lemma FindImport_spec_single_match:
  assumes "length (filter (anyRule packageIdent) (Imports file)) \<le> 1"
  shows "FindImport_spec file packageIdent = find (anyRule packageIdent) (Imports file)"
proof -
  have a: "find (aliasRule packageIdent) (Imports file) =
      (case find (anyRule packageIdent) (Imports file) of
         None \<Rightarrow> None | Some i \<Rightarrow> if aliasRule packageIdent i then Some i else None)"
    using assms by (rule find_single_match) (simp add: anyRule_def)
  have b: "find (lastSegmentRule packageIdent) (Imports file) =
      (case find (anyRule packageIdent) (Imports file) of
         None \<Rightarrow> None | Some i \<Rightarrow> if lastSegmentRule packageIdent i then Some i else None)"
    using assms by (rule find_single_match) (simp add: anyRule_def)
  have c: "find (fullPathRule packageIdent) (Imports file) =
      (case find (anyRule packageIdent) (Imports file) of
         None \<Rightarrow> None | Some i \<Rightarrow> if fullPathRule packageIdent i then Some i else None)"
    using assms by (rule find_single_match) (simp add: anyRule_def)
  show ?thesis
  proof (cases "find (anyRule packageIdent) (Imports file)")
    case None
    then show ?thesis by (simp add: FindImport_spec_def a b c)
  next
    case (Some i)
    then have "anyRule packageIdent i" by (auto simp: find_Some_iff)
    then show ?thesis using Some by (auto simp: FindImport_spec_def a b c anyRule_def)
  qed
qed

section \<open>Claims\<close>

text \<open>
  C1, as amended. TypeInfos lists every top-level named type declaration, one entry per
  named type of a construct, in file order and then in textual order: the list the
  specification describes is a subsequence of the result. The walk also reaches the type
  declarations inside function bodies and inside declarations that define no type
  themselves, so the result is exactly the top-level list only for a package without such
  local type declarations. The result is a function of the model, so repeated calls agree.
\<close>

theorem TypeInfos_top_level:
  "subseq (AllDeclarations_spec pkg) (TypeInfos pkg) \<and>
   (noLocalTypeDecls pkg \<longrightarrow> TypeInfos pkg = AllDeclarations_spec pkg)"
proof -
  have "list_all2 subseq
          (map (\<lambda>file. case file of None \<Rightarrow> [] | Some f \<Rightarrow> concat (map (topLevelDeclarations f) (Decls f))) (Files pkg))
          (map walkOf (Files pkg))"
  proof -
    have "subseq (case fl of None \<Rightarrow> [] | Some f \<Rightarrow> concat (map (topLevelDeclarations f) (Decls f)))
            (walkOf fl)" for fl
    proof (cases fl)
      case None
      then show ?thesis by (simp add: walkOf_def)
    next
      case (Some f)
      have "list_all2 subseq (map (topLevelDeclarations f) (Decls f))
              (map (\<lambda>d. inspectDecl f d []) (Decls f))"
        by (simp add: list_all2_map1 list_all2_map2 list_all2_same topLevel_subseq)
      then show ?thesis using Some by (simp add: walkOf_def subseq_concat)
    qed
    then show ?thesis
      by (simp add: list_all2_map1 list_all2_map2 list_all2_same)
  qed
  then have a: "subseq (AllDeclarations_spec pkg) (TypeInfos pkg)"
    unfolding AllDeclarations_spec_def TypeInfos_eq by (rule subseq_concat)
  have b: "TypeInfos pkg = AllDeclarations_spec pkg" if "noLocalTypeDecls pkg"
  proof -
    have "walkOf fl = (case fl of None \<Rightarrow> [] | Some f \<Rightarrow> concat (map (topLevelDeclarations f) (Decls f)))"
      if "fl \<in> set (Files pkg)" for fl
    proof (cases fl)
      case None
      then show ?thesis by (simp add: walkOf_def)
    next
      case (Some f)
      with that \<open>noLocalTypeDecls pkg\<close> have "\<forall>d\<in>set (Decls f). \<not> localTypeDecl d"
        by (auto simp: noLocalTypeDecls_def list_all_iff list_ex_iff)
      then have m: "map (\<lambda>d. inspectDecl f d []) (Decls f) = map (topLevelDeclarations f) (Decls f)"
        by (simp add: topLevel_eq)
      show ?thesis by (simp add: walkOf_def Some m)
    qed
    then show ?thesis unfolding AllDeclarations_spec_def TypeInfos_eq
      by (simp cong: map_cong)
  qed
  show ?thesis using a b by simp
qed

theorem TypeInfos_top_level_witness:
  "noLocalTypeDecls twoFilePkg \<and>
   TypeInfos twoFilePkg = AllDeclarations_spec twoFilePkg \<and>
   AllDeclarations_spec twoFilePkg = [infoA, infoB, infoC]"
proof -
  have n: "noLocalTypeDecls twoFilePkg"
    by (simp add: noLocalTypeDecls_def twoFilePkg_def fileAB_def fileC_def declAB_def declC_def
        specA_def specB_def specC_def)
  have s: "AllDeclarations_spec twoFilePkg = [infoA, infoB, infoC]"
    by (simp add: AllDeclarations_spec_def twoFilePkg_def declarationsOf_def infoA_def infoB_def
        infoC_def fileAB_def fileC_def declAB_def declC_def)
  show ?thesis using TypeInfos_top_level [of twoFilePkg] n s by simp
qed

text \<open>
  C1 as stated fails: for \<^verbatim>\<open>func f() { type local int }\<close> the result holds the local
  type, which is no top-level declaration.
\<close>

theorem TypeInfos_local_counterexample:
  "TypeInfos localPkg =
     [\<lparr>TypeInfo_FileInfo = localFile, TypeInfo_GenDecl = localDecl,
       TypeInfo_TypeSpec = TypeSpec None ''local'' (Ident ''int''), AnnotatedComment = None\<rparr>] \<and>
   AllDeclarations_spec localPkg = [] \<and>
   TypeInfos localPkg \<noteq> AllDeclarations_spec localPkg"
  by (simp add: TypeInfos_def AllDeclarations_spec_def localPkg_def inspectFile_def localFile_def
      localDecl_def visit_def)

text \<open>
  C2. For a field whose type is a plain pointer to a named type, IsPtr holds and the four
  other shape predicates do not; for a collection of that type, only IsArray holds; for a
  pointer to a collection, IsPtr and IsPtrArray hold and IsArray does not.
\<close>

theorem shape_predicates_by_shape:
  assumes "isNamedType T"
  shows "IsPtr (Field names (StarExpr T)) \<and>
         \<not> IsArray (Field names (StarExpr T)) \<and>
         \<not> IsPtrArray (Field names (StarExpr T)) \<and>
         \<not> IsArrayPtr (Field names (StarExpr T)) \<and>
         \<not> IsPtrArrayPtr (Field names (StarExpr T)) \<and>
         IsArray (Field names (ArrayType len T)) \<and>
         \<not> IsPtr (Field names (ArrayType len T)) \<and>
         \<not> IsPtrArray (Field names (ArrayType len T)) \<and>
         \<not> IsArrayPtr (Field names (ArrayType len T)) \<and>
         \<not> IsPtrArrayPtr (Field names (ArrayType len T)) \<and>
         IsPtr (Field names (StarExpr (ArrayType len elt))) \<and>
         IsPtrArray (Field names (StarExpr (ArrayType len elt))) \<and>
         \<not> IsArray (Field names (StarExpr (ArrayType len elt)))"
  using assms
  by (cases T rule: isNamedType.cases)
     (simp_all add: IsPtr_def IsArray_def IsPtrArray_def IsArrayPtr_def IsPtrArrayPtr_def)

theorem shape_predicates_by_shape_witness:
  "isNamedType (Ident ''Point'') \<and>
   IsPtr (Field [''P''] (StarExpr (Ident ''Point''))) \<and>
   \<not> IsPtrArray (Field [''P''] (StarExpr (Ident ''Point''))) \<and>
   IsArray (Field [''P''] (ArrayType None (Ident ''Point''))) \<and>
   \<not> IsArrayPtr (Field [''P''] (ArrayType None (Ident ''Point''))) \<and>
   IsPtrArray (Field [''P''] (StarExpr (ArrayType None (Ident ''Point''))))"
  using shape_predicates_by_shape [of "Ident ''Point''" "[''P'']" None "Ident ''Point''"]
  by simp

text \<open>
  C9. StructType returns the record shape when the definition of the declaration is a
  struct type, and the error ErrNotStructType, the only error it has, for every other
  definition. It reads the declaration and changes nothing, so a caller can test the error
  and go on with the same declaration.
\<close>

theorem StructType_or_error:
  "(TypeSpec_Type (TypeInfo_TypeSpec t) = StructType flds \<longrightarrow> TypeInfo_StructType t = Inr flds) \<and>
   ((\<forall>fs. TypeSpec_Type (TypeInfo_TypeSpec t) \<noteq> StructType fs) \<longrightarrow>
      TypeInfo_StructType t = Inl ErrNotStructType) \<and>
   (\<forall>e. TypeInfo_StructType t = Inl e \<longrightarrow> e = ErrNotStructType)"
  by (cases "TypeSpec_Type (TypeInfo_TypeSpec t)") (simp_all add: TypeInfo_StructType_def)

theorem StructType_or_error_witness:
  "TypeInfo_StructType pointInfo =
     Inr [Field [''X''] (Ident ''int''),
          Field [''Y''] (StarExpr (Ident ''int'')),
          Field [''Tags''] (ArrayType None (Ident ''string''))] \<and>
   TypeInfo_StructType infoA = Inl ErrNotStructType \<and>
   TypeInfo_Name infoA = ''A''"
  using StructType_or_error [of pointInfo
      "[Field [''X''] (Ident ''int''), Field [''Y''] (StarExpr (Ident ''int'')),
        Field [''Tags''] (ArrayType None (Ident ''string''))]"]
    StructType_or_error [of infoA "[]"]
  by (simp add: pointInfo_def pointSpec_def infoA_def specA_def TypeInfo_Name_def)

text \<open>
  C10. For every field, IsPtrArrayPtr implies IsPtrArray, IsPtrArray implies IsPtr and
  IsArrayPtr implies IsArray; IsPtr and IsArray never hold together.
\<close>

theorem shape_predicates_implications:
  "(IsPtrArrayPtr f \<longrightarrow> IsPtrArray f) \<and>
   (IsPtrArray f \<longrightarrow> IsPtr f) \<and>
   (IsArrayPtr f \<longrightarrow> IsArray f) \<and>
   \<not> (IsPtr f \<and> IsArray f)"
  by (simp add: IsPtr_def IsArray_def IsPtrArray_def IsArrayPtr_def IsPtrArrayPtr_def
      split: Expr.splits)

theorem shape_predicates_implications_witness:
  "IsPtrArrayPtr (Field [''Ps''] (StarExpr (ArrayType None (StarExpr (Ident ''Point''))))) \<and>
   IsPtrArray (Field [''Ps''] (StarExpr (ArrayType None (StarExpr (Ident ''Point''))))) \<and>
   IsPtr (Field [''Ps''] (StarExpr (ArrayType None (StarExpr (Ident ''Point''))))) \<and>
   \<not> IsArray (Field [''Ps''] (StarExpr (ArrayType None (StarExpr (Ident ''Point''))))) \<and>
   IsArrayPtr (Field [''Qs''] (ArrayType None (StarExpr (Ident ''Point'')))) \<and>
   IsArray (Field [''Qs''] (ArrayType None (StarExpr (Ident ''Point''))))"
proof -
  have p: "IsPtrArrayPtr (Field [''Ps''] (StarExpr (ArrayType None (StarExpr (Ident ''Point'')))))"
    by (simp add: IsPtrArrayPtr_def)
  have q: "IsArrayPtr (Field [''Qs''] (ArrayType None (StarExpr (Ident ''Point''))))"
    by (simp add: IsArrayPtr_def)
  show ?thesis
    using p q
      shape_predicates_implications
        [of "Field [''Ps''] (StarExpr (ArrayType None (StarExpr (Ident ''Point''))))"]
      shape_predicates_implications
        [of "Field [''Qs''] (ArrayType None (StarExpr (Ident ''Point'')))"]
    by blast
qed

text \<open>
  C6. CollectTypeInfos returns exactly the declarations of TypeInfos whose name is an entry
  of the list: the result is TypeInfos filtered by that test, hence a subsequence in the
  same order in which no declaration is repeated, however often its name is listed. A list
  of names that no declaration bears gives the empty result.
\<close>

theorem CollectTypeInfos_by_name:
  "CollectTypeInfos pkg typeNames =
     filter (\<lambda>t. TypeInfo_Name t \<in> set typeNames) (TypeInfos pkg) \<and>
   subseq (CollectTypeInfos pkg typeNames) (TypeInfos pkg) \<and>
   ((\<forall>t \<in> set (TypeInfos pkg). TypeInfo_Name t \<notin> set typeNames) \<longrightarrow>
      CollectTypeInfos pkg typeNames = [])"
  by (simp add: CollectTypeInfos_filter filter_empty_conv)

theorem CollectTypeInfos_by_name_witness:
  "TypeInfos twoFilePkg = [infoA, infoB, infoC] \<and>
   CollectTypeInfos twoFilePkg [''C'', ''Zed'', ''A'', ''C''] = [infoA, infoC] \<and>
   CollectTypeInfos twoFilePkg [''Zed''] = []"
proof -
  have t: "TypeInfos twoFilePkg = [infoA, infoB, infoC]"
    by (simp add: TypeInfos_def twoFilePkg_def inspectFile_def fileAB_def fileC_def declAB_def
        declC_def visit_def infoA_def infoB_def infoC_def)
  have n: "TypeInfo_Name infoA = ''A''" "TypeInfo_Name infoB = ''B''" "TypeInfo_Name infoC = ''C''"
    by (simp_all add: TypeInfo_Name_def infoA_def infoB_def infoC_def specA_def specB_def specC_def)
  show ?thesis
    using CollectTypeInfos_by_name [of twoFilePkg "[''C'', ''Zed'', ''A'', ''C'']"]
      CollectTypeInfos_by_name [of twoFilePkg "[''Zed'']"] t n
    by simp
qed

text \<open>
  C7. Doc returns the documentation comment of the type itself when it has one, otherwise
  that of the enclosing declaration, and nothing when both are absent; a comment is present
  when the pointer is not nil, and a comment group of go/ast is never empty.
  CollectTaggedTypeInfos returns only declarations that have a documentation comment: a
  declaration without one is never in its result, whatever comment is attached.
\<close>

theorem Doc_priority:
  "(TypeSpec_Doc (TypeInfo_TypeSpec t) = Some own \<longrightarrow> TypeInfo_Doc t = Some own) \<and>
   (TypeSpec_Doc (TypeInfo_TypeSpec t) = None \<longrightarrow>
      TypeInfo_Doc t = GenDecl_Doc (TypeInfo_GenDecl t)) \<and>
   (\<forall>u \<in> set (CollectTaggedTypeInfos carries pkg tag). TypeInfo_Doc u \<noteq> None) \<and>
   (TypeInfo_Doc t = None \<longrightarrow>
      t\<lparr>AnnotatedComment := c\<rparr> \<notin> set (CollectTaggedTypeInfos carries pkg tag))"
proof -
  have a: "TypeSpec_Doc (TypeInfo_TypeSpec t) = Some own \<longrightarrow> TypeInfo_Doc t = Some own"
    by (simp add: TypeInfo_Doc_def)
  have b: "TypeSpec_Doc (TypeInfo_TypeSpec t) = None \<longrightarrow>
      TypeInfo_Doc t = GenDecl_Doc (TypeInfo_GenDecl t)"
    by (simp add: TypeInfo_Doc_def)
  have c: "\<forall>u \<in> set (CollectTaggedTypeInfos carries pkg tag). TypeInfo_Doc u \<noteq> None"
    using tagged_has_doc by blast
  have d: "TypeInfo_Doc t = None \<longrightarrow>
      t\<lparr>AnnotatedComment := c\<rparr> \<notin> set (CollectTaggedTypeInfos carries pkg tag)"
    using tagged_has_doc [of "t\<lparr>AnnotatedComment := c\<rparr>" carries pkg tag] by auto
  show ?thesis using a b c d by blast
qed

theorem Doc_priority_witness:
  "TypeInfo_Doc infoB = Some [''// B is tagged'', ''// +gen''] \<and>
   TypeInfo_Doc infoA = Some [''// the group''] \<and>
   TypeInfo_Doc infoC = None \<and>
   CollectTaggedTypeInfos plusTag twoFilePkg ''gen'' = [infoB\<lparr>AnnotatedComment := Some ''// +gen''\<rparr>] \<and>
   infoC \<notin> set (CollectTaggedTypeInfos plusTag twoFilePkg ''gen'')"
proof -
  have t: "TypeInfos twoFilePkg = [infoA, infoB, infoC]"
    by (simp add: TypeInfos_def twoFilePkg_def inspectFile_def fileAB_def fileC_def declAB_def
        declC_def visit_def infoA_def infoB_def infoC_def)
  have sB: "TypeSpec_Doc (TypeInfo_TypeSpec infoB) = Some [''// B is tagged'', ''// +gen'']"
    by (simp add: infoB_def specB_def)
  have sA: "TypeSpec_Doc (TypeInfo_TypeSpec infoA) = None"
    "GenDecl_Doc (TypeInfo_GenDecl infoA) = Some [''// the group'']"
    by (simp_all add: infoA_def specA_def declAB_def)
  have sC: "TypeSpec_Doc (TypeInfo_TypeSpec infoC) = None"
    "GenDecl_Doc (TypeInfo_GenDecl infoC) = None"
    by (simp_all add: infoC_def specC_def declC_def)
  have dB: "TypeInfo_Doc infoB = Some [''// B is tagged'', ''// +gen'']"
    using Doc_priority [of infoB "[''// B is tagged'', ''// +gen'']" plusTag twoFilePkg "''gen''" None] sB
    by simp
  have dA: "TypeInfo_Doc infoA = Some [''// the group'']"
    using Doc_priority [of infoA "[]" plusTag twoFilePkg "''gen''" None] sA by simp
  have dC: "TypeInfo_Doc infoC = None"
    using Doc_priority [of infoC "[]" plusTag twoFilePkg "''gen''" None] sC by simp
  have r: "CollectTaggedTypeInfos plusTag twoFilePkg ''gen'' =
      [infoB\<lparr>AnnotatedComment := Some ''// +gen''\<rparr>]"
    by (simp add: CollectTaggedTypeInfos_def t dA dB dC findAnnotation_def plusTag_def)
  have m: "infoC \<notin> set (CollectTaggedTypeInfos plusTag twoFilePkg ''gen'')"
    using Doc_priority [of infoC "[]" plusTag twoFilePkg "''gen''" None] dC
    by (simp add: infoC_def)
  show ?thesis using dA dB dC r m by simp
qed

text \<open>
  C5. When no file name of the input has the extension \<^verbatim>\<open>.go\<close>, parsePackage returns the
  error of no buildable Go files, whatever the parser and the type checker would do. A file
  name without the extension is skipped and is no error: it never reaches the parser, and
  the load gives what the load of the names with the extension alone gives, each with the
  source text it had; with no source texts, ParsePackageFiles of the names is
  ParsePackageFiles of the names with the extension. So where every name with the extension
  parses, at least one has it and the type check passes, the load returns a package with
  one file for each of them.
\<close>

theorem parsePackage_no_source_files:
  "(filter (\<lambda>n. HasSuffix n ''.go'') fileNames = [] \<longrightarrow>
      parsePackage p parseFile check directory fileNames codes =
        Inl (NoBuildableGoFiles directory)) \<and>
   ((\<forall>n c. HasSuffix n ''.go'' \<longrightarrow> parseFile n c = parseFile' n c) \<longrightarrow>
      parsePackage p parseFile check directory fileNames codes =
        parsePackage p parseFile' check directory fileNames codes) \<and>
   parsePackage p parseFile check directory fileNames codes =
     parsePackage p parseFile check directory (filter (\<lambda>n. HasSuffix n ''.go'') fileNames)
       (map snd (filter (\<lambda>nc. HasSuffix (fst nc) ''.go'') (zip fileNames codes))) \<and>
   ParsePackageFiles p parseFile check fileNames =
     ParsePackageFiles p parseFile check (filter (\<lambda>n. HasSuffix n ''.go'') fileNames) \<and>
   ((\<forall>n c. HasSuffix n ''.go'' \<longrightarrow> (\<exists>f. parseFile n c = Inr f)) \<and>
    filter (\<lambda>n. HasSuffix n ''.go'') fileNames \<noteq> [] \<and>
    (\<forall>fs. snd (check directory fs) = None) \<longrightarrow>
      (\<exists>pkg. parsePackage p parseFile check directory fileNames codes = Inr pkg \<and>
             Dir pkg = directory \<and>
             length (Files pkg) = length (filter (\<lambda>n. HasSuffix n ''.go'') fileNames)))"
proof -
  have a: "parsePackage p parseFile check directory fileNames codes =
        Inl (NoBuildableGoFiles directory)"
    if "filter (\<lambda>n. HasSuffix n ''.go'') fileNames = []"
    using parseFiles_skips [OF that, of parseFile codes 0 "[]"]
    by (simp add: parsePackage_def)
  have b: "parsePackage p parseFile check directory fileNames codes =
        parsePackage p parseFile' check directory fileNames codes"
    if "\<forall>n c. HasSuffix n ''.go'' \<longrightarrow> parseFile n c = parseFile' n c"
    using parseFiles_cong [of parseFile parseFile' fileNames codes 0 "[]"] that
    by (simp add: parsePackage_def)
  have c: "parsePackage p parseFile check directory fileNames codes =
     parsePackage p parseFile check directory (filter (\<lambda>n. HasSuffix n ''.go'') fileNames)
       (map snd (filter (\<lambda>nc. HasSuffix (fst nc) ''.go'') (zip fileNames codes)))"
    using parseFiles_filter [of parseFile fileNames codes "[]"]
    by (simp add: parsePackage_def)
  have d: "ParsePackageFiles p parseFile check fileNames =
     ParsePackageFiles p parseFile check (filter (\<lambda>n. HasSuffix n ''.go'') fileNames)"
    using parseFiles_filter [of parseFile fileNames "[]" "[]"]
    by (simp add: ParsePackageFiles_def parsePackage_def)
  have e: "\<exists>pkg. parsePackage p parseFile check directory fileNames codes = Inr pkg \<and>
             Dir pkg = directory \<and>
             length (Files pkg) = length (filter (\<lambda>n. HasSuffix n ''.go'') fileNames)"
    if parse: "\<forall>n c. HasSuffix n ''.go'' \<longrightarrow> (\<exists>f. parseFile n c = Inr f)"
      and some: "filter (\<lambda>n. HasSuffix n ''.go'') fileNames \<noteq> []"
      and chk: "\<forall>fs. snd (check directory fs) = None"
  proof -
    obtain fs where fs: "parseFiles parseFile fileNames codes 0 [] = Inr ([] @ fs)"
      and len: "length fs = length (filter (\<lambda>n. HasSuffix n ''.go'') fileNames)"
      using parseFiles_all_parse [of parseFile fileNames codes 0 "[]"] parse by blast
    from len some have ne: "fs \<noteq> []" by auto
    obtain typesPkg where "check directory (AstFiles fs) = (typesPkg, None)"
      using chk by (metis prod.collapse)
    then have "parsePackage p parseFile check directory fileNames codes =
        Inr \<lparr>Dir = directory, Files = fs, Types = typesPkg\<rparr>"
      using fs ne by (simp add: parsePackage_def)
    then show ?thesis using len by simp
  qed
  show ?thesis using a b c d e by blast
qed

theorem parsePackage_no_source_files_witness:
  "filter (\<lambda>n. HasSuffix n ''.go'') [''README.md'', ''asm_amd64.s''] = [] \<and>
   parsePackage strictParser failingParser failingCheck ''pkg'' [''README.md'', ''asm_amd64.s''] [] =
     Inl (NoBuildableGoFiles ''pkg'') \<and>
   ParsePackageFiles strictParser pointParser resolvingCheck [''point.go'', ''README.md''] =
     Inr \<lparr>Dir = ''.'', Files = [Some pointFile], Types = Some ()\<rparr> \<and>
   parsePackage strictParser pointParser resolvingCheck ''.'' [''README.md'', ''point.go'']
       [''not Go'', pointSource] =
     Inr \<lparr>Dir = ''.'', Files = [Some pointFile], Types = Some ()\<rparr>"
proof -
  have f: "filter (\<lambda>n. HasSuffix n ''.go'') [''README.md'', ''asm_amd64.s''] = []"
    by (simp add: HasSuffix_def)
  have n: "parsePackage strictParser failingParser failingCheck ''pkg''
      [''README.md'', ''asm_amd64.s''] [] = Inl (NoBuildableGoFiles ''pkg'')"
    using parsePackage_no_source_files
      [of "[''README.md'', ''asm_amd64.s'']" strictParser failingParser failingCheck "''pkg''" "[]"
        failingParser] f
    by simp
  have g: "filter (\<lambda>n. HasSuffix n ''.go'') [''point.go'', ''README.md''] = [''point.go'']"
    by (simp add: HasSuffix_def)
  have one: "ParsePackageFiles strictParser pointParser resolvingCheck [''point.go''] =
      Inr \<lparr>Dir = ''.'', Files = [Some pointFile], Types = Some ()\<rparr>"
    by (simp add: ParsePackageFiles_def parsePackage_def HasSuffix_def pointParser_def
        resolvingCheck_def strictParser_def)
  have "ParsePackageFiles strictParser pointParser resolvingCheck [''point.go'', ''README.md''] =
      ParsePackageFiles strictParser pointParser resolvingCheck
        (filter (\<lambda>n. HasSuffix n ''.go'') [''point.go'', ''README.md''])"
    using parsePackage_no_source_files
      [of "[''point.go'', ''README.md'']" strictParser pointParser resolvingCheck "''.''" "[]"
        pointParser]
    by blast
  then have m: "ParsePackageFiles strictParser pointParser resolvingCheck
      [''point.go'', ''README.md''] =
      Inr \<lparr>Dir = ''.'', Files = [Some pointFile], Types = Some ()\<rparr>"
    by (simp only: g one)
  have h: "filter (\<lambda>n. HasSuffix n ''.go'') [''README.md'', ''point.go''] = [''point.go'']"
    "map snd (filter (\<lambda>nc. HasSuffix (fst nc) ''.go'')
       (zip [''README.md'', ''point.go''] [''not Go'', pointSource])) = [pointSource]"
    by (simp_all add: HasSuffix_def)
  have two: "parsePackage strictParser pointParser resolvingCheck ''.'' [''point.go''] [pointSource] =
      Inr \<lparr>Dir = ''.'', Files = [Some pointFile], Types = Some ()\<rparr>"
    by (simp add: parsePackage_def HasSuffix_def pointParser_def resolvingCheck_def
        strictParser_def)
  have "parsePackage strictParser pointParser resolvingCheck ''.'' [''README.md'', ''point.go'']
       [''not Go'', pointSource] =
     parsePackage strictParser pointParser resolvingCheck ''.''
       (filter (\<lambda>n. HasSuffix n ''.go'') [''README.md'', ''point.go''])
       (map snd (filter (\<lambda>nc. HasSuffix (fst nc) ''.go'')
          (zip [''README.md'', ''point.go''] [''not Go'', pointSource])))"
    using parsePackage_no_source_files
      [of "[''README.md'', ''point.go'']" strictParser pointParser resolvingCheck "''.''"
        "[''not Go'', pointSource]" pointParser]
    by blast
  then have k: "parsePackage strictParser pointParser resolvingCheck ''.''
      [''README.md'', ''point.go''] [''not Go'', pointSource] =
      Inr \<lparr>Dir = ''.'', Files = [Some pointFile], Types = Some ()\<rparr>"
    by (simp only: h two)
  show ?thesis using f n m k by blast
qed

text \<open>
  C4. When the files were parsed and the type checker reports an error: with
  SkipSemanticsCheck the load returns the package, its table of resolved types absent, and
  no error, and TypeInfos on it gives what it gives on the package with any table of types;
  without SkipSemanticsCheck the load returns that error and no package.
\<close>

theorem parsePackage_resolution_failure:
  assumes "parseFiles parseFile fileNames codes 0 [] = Inr files"
    and "files \<noteq> []"
    and "check directory (AstFiles files) = (typesPkg, Some err)"
  shows "(SkipSemanticsCheck p \<longrightarrow>
            parsePackage p parseFile check directory fileNames codes =
              Inr \<lparr>Dir = directory, Files = files, Types = None\<rparr> \<and>
            TypeInfos \<lparr>Dir = directory, Files = files, Types = None :: 'tp option\<rparr> =
              TypeInfos \<lparr>Dir = directory, Files = files, Types = resolved :: 'tp option\<rparr>) \<and>
         (\<not> SkipSemanticsCheck p \<longrightarrow>
            parsePackage p parseFile check directory fileNames codes = Inl (CheckError err))"
  using assms by (simp add: parsePackage_def TypeInfos_def)

theorem parsePackage_resolution_failure_witness:
  "parsePackage lenientParser pointParser failingCheck ''.'' [''point.go''] [pointSource] =
     Inr \<lparr>Dir = ''.'', Files = [Some pointFile], Types = None\<rparr> \<and>
   TypeInfos \<lparr>Dir = ''.'', Files = [Some pointFile], Types = None :: unit option\<rparr> = [pointInfo] \<and>
   parsePackage strictParser pointParser failingCheck ''.'' [''point.go''] [pointSource] =
     Inl (CheckError ''could not import missing/dep'')"
proof -
  have f: "parseFiles pointParser [''point.go''] [pointSource] 0 [] = Inr [Some pointFile]"
    by (simp add: HasSuffix_def pointParser_def)
  have c: "failingCheck ''.'' (AstFiles [Some pointFile]) = (None, Some ''could not import missing/dep'')"
    by (simp add: failingCheck_def)
  have t: "TypeInfos \<lparr>Dir = ''.'', Files = [Some pointFile], Types = None :: unit option\<rparr> = [pointInfo]"
    by (simp add: TypeInfos_def inspectFile_def pointFile_def pointDecl_def visit_def pointInfo_def)
  show ?thesis
    using
      parsePackage_resolution_failure
        [where p = lenientParser and resolved = None and check = failingCheck
          and directory = "''.''" and typesPkg = None
          and err = "''could not import missing/dep''", OF f]
      parsePackage_resolution_failure
        [where p = strictParser and resolved = None and check = failingCheck
          and directory = "''.''" and typesPkg = None
          and err = "''could not import missing/dep''", OF f]
      c t
    by (simp add: lenientParser_def strictParser_def)
qed

text \<open>
  C8, as amended. FindImportSpecByIdent returns the first import clause of the file, in the
  order of the file, to which one of the three tests applies: the alias is the identifier,
  the path literal ends with a slash and the identifier, or the path literal is the
  identifier. It returns nothing exactly when no clause passes a test, and that is no
  error. When at most one clause of the file passes a test, this is the clause the three
  rules tried in order find.
\<close>

theorem FindImportSpecByIdent_first_match:
  "FindImportSpecByIdent file packageIdent = find (anyRule packageIdent) (Imports file) \<and>
   (FindImportSpecByIdent file packageIdent = None \<longleftrightarrow>
      \<not> list_ex (anyRule packageIdent) (Imports file)) \<and>
   (length (filter (anyRule packageIdent) (Imports file)) \<le> 1 \<longrightarrow>
      FindImportSpecByIdent file packageIdent = FindImport_spec file packageIdent)"
  by (auto simp: FindImportSpecByIdent_def findImportSpec_find find_None_iff list_ex_iff
      FindImport_spec_single_match)

theorem FindImportSpecByIdent_first_match_witness:
  "length (filter (anyRule ''fmt'') (Imports importsFile)) \<le> 1 \<and>
   FindImportSpecByIdent importsFile ''fmt'' = Some importFmt \<and>
   FindImport_spec importsFile ''fmt'' = Some importFmt \<and>
   FindImportSpecByIdent importsFile ''os'' = None"
proof -
  have r: "anyRule ''fmt'' importFmt" "\<not> anyRule ''fmt'' importXFoo" "\<not> anyRule ''fmt'' importFooBar"
    "\<not> anyRule ''os'' importFmt" "\<not> anyRule ''os'' importXFoo" "\<not> anyRule ''os'' importFooBar"
    by (simp_all add: anyRule_def aliasRule_def lastSegmentRule_def fullPathRule_def HasSuffix_def
        importFmt_def importXFoo_def importFooBar_def quote_def)
  have i: "Imports importsFile = [importFooBar, importXFoo, importFmt]"
    by (simp add: importsFile_def)
  have n: "length (filter (anyRule ''fmt'') (Imports importsFile)) \<le> 1"
    by (simp add: i r)
  have a: "FindImportSpecByIdent importsFile ''fmt'' = Some importFmt"
    using FindImportSpecByIdent_first_match [of importsFile "''fmt''"] by (simp add: i r)
  have "FindImportSpecByIdent importsFile ''fmt'' = FindImport_spec importsFile ''fmt''"
    using FindImportSpecByIdent_first_match [of importsFile "''fmt''"] n by blast
  with a have b: "FindImport_spec importsFile ''fmt'' = Some importFmt"
    by simp
  have c: "FindImportSpecByIdent importsFile ''os'' = None"
    using FindImportSpecByIdent_first_match [of importsFile "''os''"] by (simp add: i r)
  show ?thesis using n a b c by simp
qed

text \<open>
  C8 as stated fails: after \<^verbatim>\<open>import "x/foo"\<close> and \<^verbatim>\<open>import foo "bar"\<close> the rules in
  order give the second clause, whose alias is \<open>foo\<close>; the code gives the first.
\<close>

theorem FindImportSpecByIdent_order_counterexample:
  "FindImportSpecByIdent clashFile ''foo'' = Some importXFoo \<and>
   FindImport_spec clashFile ''foo'' = Some importFooBar \<and>
   importXFoo \<noteq> importFooBar"
  by (simp add: FindImportSpecByIdent_def FindImport_spec_def clashFile_def importXFoo_def
      importFooBar_def aliasRule_def HasSuffix_def quote_def)

text \<open>
  The file \<^verbatim>\<open>type Point struct { X int; Y *int; Tags []string }\<close> through the loader
  and the collector, as far as parsing.go decides it: one declaration, named \<open>Point\<close>, a
  record shape of three fields, IsPtr of \<open>Y\<close> and IsArray of \<open>Tags\<close>. Whether IsInt
  holds of \<open>X\<close> and of \<open>Y\<close> is the answer of ExprToBaseTypeName on \<^verbatim>\<open>int\<close> and on
  \<^verbatim>\<open>*int\<close>.
\<close>

lemma ParseStringSource_Point_shape:
  assumes "HasSuffix fileName ''.go''"
    and "parseFile fileName (Some code) = Inr f"
    and "Decls f = [GenD pointDecl]"
    and "SkipSemanticsCheck p \<or> snd (check ''.'' (AstFiles [Some f])) = None"
  shows "\<exists>pkg t st x y tags.
           ParseStringSource p parseFile check fileName code = Inr pkg \<and>
           TypeInfos pkg = [t] \<and> TypeInfo_Name t = ''Point'' \<and>
           TypeInfo_StructType t = Inr st \<and> FieldInfos st = [x, y, tags] \<and>
           Field_Names x = [''X''] \<and>
           (IsInt baseTypeName x \<longleftrightarrow> baseTypeName (Ident ''int'') = Some ''int'') \<and>
           Field_Names y = [''Y''] \<and> IsPtr y \<and>
           (IsInt baseTypeName y \<longleftrightarrow> baseTypeName (StarExpr (Ident ''int'')) = Some ''int'') \<and>
           Field_Names tags = [''Tags''] \<and> IsArray tags"
proof -
  obtain typesPkg err where c: "check ''.'' (AstFiles [Some f]) = (typesPkg, err)"
    by (cases "check ''.'' (AstFiles [Some f])")
  have files: "parseFiles parseFile [fileName] [code] 0 [] = Inr [Some f]"
    using assms(1,2) by simp
  obtain ty where load: "ParseStringSource p parseFile check fileName code =
      Inr \<lparr>Dir = ''.'', Files = [Some f], Types = ty\<rparr>"
    using assms(4) c files
    by (cases err) (auto simp: ParseStringSource_def parsePackage_def)
  let ?t = "\<lparr>TypeInfo_FileInfo = f, TypeInfo_GenDecl = pointDecl, TypeInfo_TypeSpec = pointSpec,
      AnnotatedComment = None\<rparr>"
  have infos: "TypeInfos \<lparr>Dir = ''.'', Files = [Some f], Types = ty\<rparr> = [?t]"
    by (simp add: TypeInfos_def inspectFile_def assms(3) pointDecl_def visit_def)
  have name: "TypeInfo_Name ?t = ''Point''"
    by (simp add: TypeInfo_Name_def pointSpec_def)
  have st: "TypeInfo_StructType ?t =
      Inr [Field [''X''] (Ident ''int''), Field [''Y''] (StarExpr (Ident ''int'')),
           Field [''Tags''] (ArrayType None (Ident ''string''))]"
    by (simp add: TypeInfo_StructType_def pointSpec_def)
  have flds: "FieldInfos [Field [''X''] (Ident ''int''), Field [''Y''] (StarExpr (Ident ''int'')),
           Field [''Tags''] (ArrayType None (Ident ''string''))] =
      [Field [''X''] (Ident ''int''), Field [''Y''] (StarExpr (Ident ''int'')),
           Field [''Tags''] (ArrayType None (Ident ''string''))]"
    by (simp add: FieldInfos_def)
  have preds:
    "IsInt baseTypeName (Field [''X''] (Ident ''int'')) \<longleftrightarrow>
       baseTypeName (Ident ''int'') = Some ''int''"
    "IsPtr (Field [''Y''] (StarExpr (Ident ''int'')))"
    "IsInt baseTypeName (Field [''Y''] (StarExpr (Ident ''int''))) \<longleftrightarrow>
       baseTypeName (StarExpr (Ident ''int'')) = Some ''int''"
    "IsArray (Field [''Tags''] (ArrayType None (Ident ''string'')))"
    by (auto simp add: IsInt_def IsPtr_def IsArray_def split: option.splits)
  show ?thesis
    using load infos name st flds preds by force
qed

end
